theory Spec2Isabelle
  imports Main "HOL-Library.AList"
begin

section \<open>fetch-salesforce: a session-scoped client of the Salesforce REST API\<close>

text \<open>
  A shallow embedding of \<^verbatim>\<open>src/library.js\<close>. The closure variables of
  \<^verbatim>\<open>salesforceSession\<close> and the properties of the object it returns are the fields of
  one record, passed through every operation and returned updated. A JavaScript name with
  a leading underscore (\<^verbatim>\<open>_url\<close>, \<^verbatim>\<open>_request\<close>, \<^verbatim>\<open>_requests\<close>, ...) is written
  without it, with the prefix \<open>priv_\<close> for the private functions. A rejected promise or a
  thrown value is the \<open>Inl\<close> of a sum; an awaited promise is the value it resolves to.
\<close>

subsection \<open>JavaScript values\<close>

text \<open>
  The values that JSON decoding produces and that callers pass as records, plus
  \<^verbatim>\<open>undefined\<close>. The code reads two things of a number, whether it is truthy and what
  it prints in a string concatenation, so a number is kept as the string that
  \<^verbatim>\<open>String(n)\<close> returns for it (\<^verbatim>\<open>0\<close>, \<^verbatim>\<open>-305\<close>, \<^verbatim>\<open>1.5\<close>, \<^verbatim>\<open>1e+21\<close>,
  \<^verbatim>\<open>NaN\<close>). A string is its sequence of bytes (for ASCII text the JavaScript
  \<^verbatim>\<open>length\<close> is the length of the list).
\<close>

datatype jsval =
    JUndefined
  | JNull
  | JBool bool
  | JNum string
  | JStr string
  | JArr "jsval list"
  | JObj "(string \<times> jsval) list"

datatype error =
    TypeError
  | ReferenceError
  | URIError
  | Error string    \<comment> \<open>\<^verbatim>\<open>throw new Error(message)\<close>\<close>
  | Thrown string   \<comment> \<open>\<^verbatim>\<open>throw "message"\<close>: the source throws bare strings\<close>

text \<open>ToBoolean: what \<^verbatim>\<open>if (v)\<close> and \<^verbatim>\<open>!v\<close> test.\<close>

fun truthy :: "jsval \<Rightarrow> bool" where
  "truthy JUndefined = False"
| "truthy JNull = False"
| "truthy (JBool b) = b"
| "truthy (JNum n) = (n \<noteq> ''0'' \<and> n \<noteq> ''NaN'')"
| "truthy (JStr s) = (s \<noteq> [])"
| "truthy (JArr xs) = True"
| "truthy (JObj kvs) = True"

text \<open>
  Reading a data property \<^verbatim>\<open>v.name\<close>. It throws a TypeError on \<^verbatim>\<open>undefined\<close> and
  \<^verbatim>\<open>null\<close>; an object answers with its own entry or \<^verbatim>\<open>undefined\<close>; every other value
  has none of the names the source reads (\<^verbatim>\<open>method\<close>, \<^verbatim>\<open>attributes\<close>, \<^verbatim>\<open>type\<close>,
  \<^verbatim>\<open>records\<close>, \<^verbatim>\<open>searchRecords\<close>, \<^verbatim>\<open>nextRecordsUrl\<close>, \<^verbatim>\<open>results\<close>).
\<close>

fun get_prop :: "jsval \<Rightarrow> string \<Rightarrow> error + jsval" where
  "get_prop JUndefined name = Inl TypeError"
| "get_prop JNull name = Inl TypeError"
| "get_prop (JObj kvs) name = Inr (case map_of kvs name of None \<Rightarrow> JUndefined | Some v \<Rightarrow> v)"
| "get_prop v name = Inr JUndefined"

text \<open>
  ToString, as string concatenation applies it: an array is its elements joined by commas,
  with \<^verbatim>\<open>undefined\<close> and \<^verbatim>\<open>null\<close> elements left empty; an object is
  \<^verbatim>\<open>[object Object]\<close>.
\<close>

fun join :: "string \<Rightarrow> string list \<Rightarrow> string" where
  "join sep [] = []"
| "join sep [x] = x"
| "join sep (x # y # ys) = x @ sep @ join sep (y # ys)"

fun to_string :: "jsval \<Rightarrow> string" where
  "to_string JUndefined = ''undefined''"
| "to_string JNull = ''null''"
| "to_string (JBool b) = (if b then ''true'' else ''false'')"
| "to_string (JNum n) = n"
| "to_string (JStr s) = s"
| "to_string (JArr xs) =
     join '','' (map (\<lambda>x. if x = JUndefined \<or> x = JNull then [] else to_string x) xs)"
| "to_string (JObj kvs) = ''[object Object]''"

text \<open>
  \<^verbatim>\<open>a.concat(b)\<close>. An array spreads an array argument and appends any other argument as
  one element (so \<^verbatim>\<open>[1].concat(undefined)\<close> is \<^verbatim>\<open>[1, undefined]\<close>); a string appends
  the argument's ToString; no other value has a callable \<^verbatim>\<open>concat\<close>, and the call
  throws a TypeError.
\<close>

fun js_concat :: "jsval \<Rightarrow> jsval \<Rightarrow> error + jsval" where
  "js_concat (JArr xs) (JArr ys) = Inr (JArr (xs @ ys))"
| "js_concat (JArr xs) v = Inr (JArr (xs @ [v]))"
| "js_concat (JStr s) v = Inr (JStr (s @ to_string v))"
| "js_concat u v = Inl TypeError"

text \<open>\<^verbatim>\<open>toUpperCase\<close> and \<^verbatim>\<open>toLowerCase\<close> on ASCII letters.\<close>

definition upper_char :: "char \<Rightarrow> char" where
  "upper_char c =
     (case map_of (zip ''abcdefghijklmnopqrstuvwxyz'' ''ABCDEFGHIJKLMNOPQRSTUVWXYZ'') c of
        None \<Rightarrow> c
      | Some u \<Rightarrow> u)"

definition lower_char :: "char \<Rightarrow> char" where
  "lower_char c =
     (case map_of (zip ''ABCDEFGHIJKLMNOPQRSTUVWXYZ'' ''abcdefghijklmnopqrstuvwxyz'') c of
        None \<Rightarrow> c
      | Some l \<Rightarrow> l)"

definition toUpperCase :: "string \<Rightarrow> string" where
  "toUpperCase s = map upper_char s"

definition toLowerCase :: "string \<Rightarrow> string" where
  "toLowerCase s = map lower_char s"

text \<open>
  \<^verbatim>\<open>encodeURIComponent\<close>: the unreserved characters (letters, digits and
  \<^verbatim>\<open>- _ . ! ~ * ' ( )\<close>) stay, every other byte becomes \<^verbatim>\<open>%XX\<close>.
\<close>

definition unreserved :: "char \<Rightarrow> bool" where
  "unreserved c =
     (let n = (of_char c :: nat) in
        (65 \<le> n \<and> n \<le> 90) \<or> (97 \<le> n \<and> n \<le> 122) \<or> (48 \<le> n \<and> n \<le> 57)
        \<or> c \<in> set ''-_.!~*'()'')"

definition hex_digit :: "nat \<Rightarrow> char" where
  "hex_digit n = ''0123456789ABCDEF'' ! n"

fun encodeURIComponent :: "string \<Rightarrow> string" where
  "encodeURIComponent [] = []"
| "encodeURIComponent (c # cs) =
     (if unreserved c then [c]
      else [CHR ''%'', hex_digit (of_char c div 16), hex_digit (of_char c mod 16)])
     @ encodeURIComponent cs"

text \<open>\<^verbatim>\<open>s.split(sep)\<close> for a separator of one character: never an empty array.\<close>

fun split_str :: "char \<Rightarrow> string \<Rightarrow> string list" where
  "split_str sep [] = [[]]"
| "split_str sep (c # cs) =
     (if c = sep then [] # split_str sep cs
      else (case split_str sep cs of
              [] \<Rightarrow> [[c]]
            | w # ws \<Rightarrow> (c # w) # ws))"

subsection \<open>The transport\<close>

text \<open>
  The options object handed to \<^verbatim>\<open>fetch\<close>: the three properties the source writes, and
  whatever else the caller put there. The body is kept as the value that
  \<^verbatim>\<open>JSON.stringify\<close> serialises.
\<close>

record fetch_params =
  headers :: "(string \<times> string) list"
  http_method :: "string option"
  body :: "jsval option"
  other :: "(string \<times> jsval) list"

type_synonym call = "string \<times> fetch_params"

text \<open>
  What \<^verbatim>\<open>fetch\<close> resolves to. \<open>json = None\<close>: \<^verbatim>\<open>request.json()\<close> rejects.
  \<open>getResponseCode = None\<close>: the call \<^verbatim>\<open>request.getResponseCode()\<close> throws (a Fetch API
  response has no such method).
\<close>

record response =
  json :: "jsval option"
  getResponseCode :: "jsval option"

text \<open>
  The transport is deterministic in the calls it has seen so far and the call it is given;
  \<open>None\<close> is a rejected \<^verbatim>\<open>fetch\<close>.
\<close>

type_synonym transport = "call list \<Rightarrow> call \<Rightarrow> response option"

subsection \<open>Session state\<close>

text \<open>
  The closure variables (\<open>OAuthVars\<close>, \<open>servicesPath\<close>, \<open>version\<close>, \<open>requests\<close>,
  \<open>requestErrors\<close>), the properties of the returned object, among them \<open>insertReults\<close>,
  the property that \<^verbatim>\<open>insert\<close> really writes, and \<open>calls\<close>, the calls the transport
  has observed, in order.
\<close>

record session =
  OAuthVars :: "(string \<times> string) list"
  servicesPath :: string
  version :: string
  requests :: int
  requestErrors :: int
  records :: jsval
  searchRecords :: jsval
  insertResults :: jsval
  insertReults :: jsval
  updateResults :: jsval
  soql :: jsval
  sosl :: jsval
  calls :: "call list"

text \<open>A credential read into a string concatenation: a missing key reads \<^verbatim>\<open>undefined\<close>.\<close>

definition OAuthVar :: "session \<Rightarrow> string \<Rightarrow> string" where
  "OAuthVar s k = (case map_of (OAuthVars s) k of None \<Rightarrow> ''undefined'' | Some v \<Rightarrow> v)"

subsection \<open>URL builder and request executor\<close>

definition priv_url :: "session \<Rightarrow> string \<Rightarrow> string" where
  "priv_url s path = OAuthVar s ''instance_url'' @ servicesPath s @ ''v'' @ version s @ ''/'' @ path"

definition priv_parameters :: "session \<Rightarrow> fetch_params option \<Rightarrow> fetch_params" where
  "priv_parameters s optionalParameters =
     (let httpheaders = [(''Authorization'', OAuthVar s ''token_type'' @ '' '' @ OAuthVar s ''access_token'')]
      in case optionalParameters of
           Some p \<Rightarrow> p\<lparr>headers := httpheaders\<rparr>
         | None \<Rightarrow> \<lparr>headers = httpheaders, http_method = None, body = None, other = []\<rparr>)"

text \<open>The options \<^verbatim>\<open>_request\<close> has built when it reaches \<^verbatim>\<open>fetch\<close>.\<close>

definition request_parameters ::
  "session \<Rightarrow> string \<Rightarrow> jsval \<Rightarrow> fetch_params option \<Rightarrow> fetch_params" where
  "request_parameters s method payload optionalParameters =
     (let p = (priv_parameters s optionalParameters)\<lparr>http_method := Some method\<rparr>
      in if truthy payload
         then p\<lparr>headers := AList.update ''Content-Type'' ''application/json'' (headers p),
                body := Some payload\<rparr>
         else p)"

text \<open>
  The two awaited steps inside the \<^verbatim>\<open>try\<close>: \<^verbatim>\<open>fetch\<close>, then the status code for
  PATCH and the decoded body otherwise. \<open>None\<close>: one of them threw.
\<close>

definition attempt :: "transport \<Rightarrow> string \<Rightarrow> call list \<Rightarrow> call \<Rightarrow> jsval option" where
  "attempt fetch method history c =
     (case fetch history c of
        None \<Rightarrow> None
      | Some request \<Rightarrow>
          if toLowerCase method = ''patch'' then getResponseCode request else json request)"

text \<open>
  \<^verbatim>\<open>_request\<close>. The counter \<open>requests\<close> is incremented at the start of every
  \<^verbatim>\<open>try\<close>, \<open>requestErrors\<close> in every \<^verbatim>\<open>catch\<close>; the retry passes the options object
  it has already filled in. \<open>retry\<close> is \<open>0\<close> where the source leaves it undefined.
\<close>

function priv_request ::
  "transport \<Rightarrow> string \<Rightarrow> string \<Rightarrow> jsval \<Rightarrow> fetch_params option \<Rightarrow> nat \<Rightarrow> session
     \<Rightarrow> (error + jsval) \<times> session" where
  "priv_request fetch method action payload optionalParameters retry s =
     (let url = priv_url s action;
          p = request_parameters s method payload optionalParameters;
          s1 = s\<lparr>requests := requests s + 1\<rparr>;
          s2 = s1\<lparr>calls := calls s1 @ [(url, p)]\<rparr>
      in case attempt fetch method (calls s1) (url, p) of
           Some response \<Rightarrow> (Inr response, s2)
         | None \<Rightarrow>
             (let s3 = s2\<lparr>requestErrors := requestErrors s2 + 1\<rparr>
              in if retry < 3
                 then priv_request fetch method action payload (Some p) (retry + 1) s3
                 else (Inl (Thrown (''Salesforce '' @ toUpperCase method @ '' request failed!'')), s3)))"
  by pat_completeness auto
termination
  by (relation "measure (\<lambda>(fetch, method, action, payload, optionalParameters, retry, s). 3 - retry)") auto

declare priv_request.simps [simp del]

definition priv_post ::
  "transport \<Rightarrow> string \<Rightarrow> jsval \<Rightarrow> fetch_params option \<Rightarrow> session \<Rightarrow> (error + jsval) \<times> session" where
  "priv_post fetch action payload optionalParameters s =
     priv_request fetch ''post'' action payload optionalParameters 0 s"

definition priv_patch ::
  "transport \<Rightarrow> string \<Rightarrow> jsval \<Rightarrow> fetch_params option \<Rightarrow> session \<Rightarrow> (error + jsval) \<times> session" where
  "priv_patch fetch action payload optionalParameters s =
     priv_request fetch ''patch'' action payload optionalParameters 0 s"

subsection \<open>GET and the oversized-GET workaround\<close>

text \<open>
  \<^verbatim>\<open>_get\<close> takes one path or an array of paths. It is an arrow function inside the arrow
  function \<^verbatim>\<open>salesforceSession\<close>, so its \<^verbatim>\<open>this\<close> is the \<^verbatim>\<open>this\<close> of the top level
  of the file (the global object of a script, \<^verbatim>\<open>undefined\<close> in a module) and not the
  session object: \<^verbatim>\<open>this.batch\<close> is not a function, and both branches that call it
  throw a TypeError before anything reaches the transport.
\<close>

datatype get_action = Path string | Paths "jsval list"

definition priv_get ::
  "transport \<Rightarrow> get_action \<Rightarrow> fetch_params option \<Rightarrow> session \<Rightarrow> (error + jsval) \<times> session" where
  "priv_get fetch action optionalParameters s =
     (case action of
        Paths actions \<Rightarrow> (Inl TypeError, s)
      | Path a \<Rightarrow>
          if length (priv_url s a) > 2048 then (Inl TypeError, s)
          else priv_request fetch ''get'' a JNull optionalParameters 0 s)"

subsection \<open>query and search\<close>

text \<open>
  The body of the \<^verbatim>\<open>try\<close> in \<^verbatim>\<open>query\<close>. The loop over \<^verbatim>\<open>nextRecordsUrl\<close> declares
  \<^verbatim>\<open>let results\<close> in its body and reads \<^verbatim>\<open>results.nextRecordsUrl\<close> in the
  initialiser of that declaration: the name is the inner binding, still uninitialised, and
  the read throws a ReferenceError before \<^verbatim>\<open>_get\<close> is called. The loop condition is the
  loose \<^verbatim>\<open>!= undefined\<close>, false for \<^verbatim>\<open>undefined\<close> and \<^verbatim>\<open>null\<close>.
\<close>

definition query_try ::
  "transport \<Rightarrow> string \<Rightarrow> fetch_params option \<Rightarrow> session \<Rightarrow> (error + jsval) \<times> session" where
  "query_try fetch q parameters s =
     (let parameters' = priv_parameters s parameters
      in case priv_get fetch (Path q) (Some parameters') s of
           (Inl e, s1) \<Rightarrow> (Inl e, s1)
         | (Inr results, s1) \<Rightarrow>
             (case get_prop results ''records'' of
                Inl e \<Rightarrow> (Inl e, s1)
              | Inr rs \<Rightarrow>
                  (let s2 = s1\<lparr>records := rs\<rparr>
                   in case get_prop results ''nextRecordsUrl'' of
                        Inl e \<Rightarrow> (Inl e, s2)
                      | Inr next \<Rightarrow>
                          if next \<noteq> JUndefined \<and> next \<noteq> JNull
                          then (Inl ReferenceError, s2)
                          else (Inr (records s2), s2))))"

text \<open>\<open>mySoql = JUndefined\<close> is the omitted argument, which defaults to \<^verbatim>\<open>this.soql\<close>.\<close>

definition query ::
  "transport \<Rightarrow> jsval \<Rightarrow> fetch_params option \<Rightarrow> session \<Rightarrow> (error + jsval) \<times> session" where
  "query fetch mySoql parameters s0 =
     (let s = s0\<lparr>soql := (if mySoql = JUndefined then soql s0 else mySoql)\<rparr>;
          q = ''query?q='' @ encodeURIComponent (to_string (soql s))
      in case query_try fetch q parameters s of
           (Inr rs, s') \<Rightarrow> (Inr rs, s')
         | (Inl e, s') \<Rightarrow> (Inl (Thrown ''Query failed!''), s'\<lparr>records := JBool False\<rparr>))"

text \<open>
  \<^verbatim>\<open>search\<close> has the same loop, and returns \<^verbatim>\<open>this.searchResults\<close>, a property that
  nothing writes.
\<close>

definition search_try ::
  "transport \<Rightarrow> string \<Rightarrow> fetch_params option \<Rightarrow> session \<Rightarrow> (error + jsval) \<times> session" where
  "search_try fetch q parameters s =
     (let parameters' = priv_parameters s parameters
      in case priv_get fetch (Path q) (Some parameters') s of
           (Inl e, s1) \<Rightarrow> (Inl e, s1)
         | (Inr results, s1) \<Rightarrow>
             (case get_prop results ''searchRecords'' of
                Inl e \<Rightarrow> (Inl e, s1)
              | Inr rs \<Rightarrow>
                  (let s2 = s1\<lparr>searchRecords := rs\<rparr>
                   in case get_prop results ''nextRecordsUrl'' of
                        Inl e \<Rightarrow> (Inl e, s2)
                      | Inr next \<Rightarrow>
                          if next \<noteq> JUndefined \<and> next \<noteq> JNull
                          then (Inl ReferenceError, s2)
                          else (Inr JUndefined, s2))))"

definition search ::
  "transport \<Rightarrow> jsval \<Rightarrow> fetch_params option \<Rightarrow> session \<Rightarrow> (error + jsval) \<times> session" where
  "search fetch mySosl parameters s0 =
     (let s = s0\<lparr>sosl := (if mySosl = JUndefined then sosl s0 else mySosl)\<rparr>;
          q = ''search?q='' @ encodeURIComponent (to_string (sosl s))
      in case search_try fetch q parameters s of
           (Inr rs, s') \<Rightarrow> (Inr rs, s')
         | (Inl e, s') \<Rightarrow> (Inl (Thrown ''Search failed!''), s'\<lparr>searchRecords := JBool False\<rparr>))"

subsection \<open>batch\<close>

text \<open>
  Every operation on a caller's array also returns the array as the call leaves it:
  \<^verbatim>\<open>splice\<close> and the indexed assignment work on the caller's object.
\<close>

definition default_get :: "session \<Rightarrow> jsval \<Rightarrow> jsval" where
  "default_get s r = JObj [(''method'', JStr ''GET''), (''url'', JStr (''v'' @ version s @ ''/'' @ to_string r))]"

text \<open>
  The first statement of \<^verbatim>\<open>batch\<close>: only \<^verbatim>\<open>requests[0].method\<close> is tested (a TypeError
  on an empty array), and then every entry is rewritten.
\<close>

definition batch_defaults :: "session \<Rightarrow> jsval list \<Rightarrow> error + jsval list" where
  "batch_defaults s reqs =
     (case reqs of
        [] \<Rightarrow> Inl TypeError
      | r # _ \<Rightarrow>
          (case get_prop r ''method'' of
             Inl e \<Rightarrow> Inl e
           | Inr m \<Rightarrow> Inr (if \<not> truthy m then map (default_get s) reqs else reqs)))"

text \<open>
  \<^verbatim>\<open>if (!batchResponses) batchResponses = thisResponse;
  else batchResponses.results.concat(thisResponse.results);\<close>
  The value of \<^verbatim>\<open>concat\<close> is dropped: only whether it throws is left of it.
\<close>

definition batch_merge :: "jsval \<Rightarrow> jsval \<Rightarrow> error + jsval" where
  "batch_merge batchResponses thisResponse =
     (if \<not> truthy batchResponses then Inr thisResponse
      else case get_prop batchResponses ''results'' of
             Inl e \<Rightarrow> Inl e
           | Inr rs \<Rightarrow>
               (case get_prop thisResponse ''results'' of
                  Inl e \<Rightarrow> Inl e
                | Inr ts \<Rightarrow>
                    (case js_concat rs ts of
                       Inl e \<Rightarrow> Inl e
                     | Inr merged \<Rightarrow> Inr batchResponses)))"

text \<open>
  The chunk loop. Each chunk gets the caller's options object: \<^verbatim>\<open>_request\<close> overwrites
  in it exactly the properties it wrote for the chunk before, so the options it builds are
  those it builds from the object as the caller passed it.
\<close>

function batch_loop ::
  "transport \<Rightarrow> fetch_params option \<Rightarrow> jsval list \<Rightarrow> jsval \<Rightarrow> session
     \<Rightarrow> (error + jsval) \<times> session \<times> jsval list" where
  "batch_loop fetch optionalParameters reqs batchResponses s =
     (if length reqs > 0
      then (let batchRequests = take 25 reqs;
                reqs' = drop 25 reqs;
                payload = JObj [(''batchRequests'', JArr batchRequests)]
            in case priv_post fetch ''composite/batch/'' payload optionalParameters s of
                 (Inl e, s1) \<Rightarrow> (Inl (Thrown ''Salesforce batch request failed!''), s1, reqs')
               | (Inr thisResponse, s1) \<Rightarrow>
                   (case batch_merge batchResponses thisResponse of
                      Inl e \<Rightarrow> (Inl (Thrown ''Salesforce batch request failed!''), s1, reqs')
                    | Inr batchResponses' \<Rightarrow>
                        batch_loop fetch optionalParameters reqs' batchResponses'
                          (s1\<lparr>requests := requests s1 - 1\<rparr>)))
      else (Inr batchResponses, s\<lparr>requests := requests s + 1\<rparr>, reqs))"
  by pat_completeness auto
termination
  by (relation "measure (\<lambda>(fetch, optionalParameters, reqs, batchResponses, s). length reqs)") auto

declare batch_loop.simps [simp del]

definition batch ::
  "transport \<Rightarrow> jsval list \<Rightarrow> fetch_params option \<Rightarrow> session
     \<Rightarrow> (error + jsval) \<times> session \<times> jsval list" where
  "batch fetch reqs optionalParameters s =
     (case batch_defaults s reqs of
        Inl e \<Rightarrow> (Inl e, s, reqs)
      | Inr reqs1 \<Rightarrow> batch_loop fetch optionalParameters reqs1 (JBool False) s)"

subsection \<open>insert and update\<close>

text \<open>\<^verbatim>\<open>oRecords && oRecords.attributes && oRecords.attributes.type\<close>, as a condition.\<close>

definition has_type :: "jsval \<Rightarrow> bool" where
  "has_type v =
     (truthy v \<and>
      (case get_prop v ''attributes'' of
         Inl e \<Rightarrow> False
       | Inr a \<Rightarrow> truthy a \<and> (case get_prop a ''type'' of Inl e \<Rightarrow> False | Inr t \<Rightarrow> truthy t)))"

definition promote :: "jsval \<Rightarrow> jsval" where
  "promote oRecords = (if has_type oRecords then JArr [oRecords] else oRecords)"

text \<open>
  The guard of \<^verbatim>\<open>insert\<close> and \<^verbatim>\<open>update\<close>, and the read of the type that follows it:
  \<^verbatim>\<open>!oRecords || !Array.isArray(oRecords) || !oRecords[0].attributes
  || !oRecords[0].attributes.type\<close>. On an empty array \<^verbatim>\<open>oRecords[0]\<close> is
  \<^verbatim>\<open>undefined\<close>, and reading \<^verbatim>\<open>attributes\<close> from it throws.
\<close>

definition valid_records :: "string \<Rightarrow> jsval \<Rightarrow> error + (jsval list \<times> jsval)" where
  "valid_records message oRecords =
     (if \<not> truthy oRecords then Inl (Error message)
      else case oRecords of
             JArr rs \<Rightarrow>
               (case get_prop (case rs of [] \<Rightarrow> JUndefined | r # _ \<Rightarrow> r) ''attributes'' of
                  Inl e \<Rightarrow> Inl e
                | Inr a \<Rightarrow>
                    if \<not> truthy a then Inl (Error message)
                    else (case get_prop a ''type'' of
                            Inl e \<Rightarrow> Inl e
                          | Inr t \<Rightarrow> if \<not> truthy t then Inl (Error message) else Inr (rs, t)))
           | _ \<Rightarrow> Inl (Error message))"

text \<open>The caller's argument after the call: an array is what the loop left of it.\<close>

definition caller_array :: "jsval \<Rightarrow> jsval list \<Rightarrow> jsval" where
  "caller_array input rest = (case input of JArr rs \<Rightarrow> JArr rest | _ \<Rightarrow> input)"

text \<open>
  \<^verbatim>\<open>insert\<close> does not await \<^verbatim>\<open>_post(url, payload)\<close>: it reads \<^verbatim>\<open>.results\<close> from the
  promise, which is \<^verbatim>\<open>undefined\<close>, and awaits that. When the call comes back,
  \<^verbatim>\<open>_request\<close> has run up to its first \<^verbatim>\<open>await\<close>: the counter is incremented and
  \<^verbatim>\<open>fetch\<close> is called. What the promise does later (the decoding, the retries) happens
  outside the run of \<^verbatim>\<open>insert\<close> and is not modelled.
\<close>

definition post_issued :: "string \<Rightarrow> jsval \<Rightarrow> session \<Rightarrow> session" where
  "post_issued action payload s =
     (let url = priv_url s action;
          p = request_parameters s ''post'' payload None
      in s\<lparr>requests := requests s + 1, calls := calls s @ [(url, p)]\<rparr>)"

function insert_loop ::
  "string \<Rightarrow> jsval list \<Rightarrow> session \<Rightarrow> (error + jsval) \<times> session \<times> jsval list" where
  "insert_loop url oRecords s =
     (if length oRecords > 0
      then (let oRecordsBatch = take 200 oRecords;
                oRecords' = drop 200 oRecords;
                payload = JObj [(''records'', JArr oRecordsBatch)];
                s1 = post_issued url payload s
            in case js_concat (insertReults s1) JUndefined of
                 Inl e \<Rightarrow> (Inl e, s1, oRecords')
               | Inr rs \<Rightarrow> insert_loop url oRecords' (s1\<lparr>insertReults := rs\<rparr>))
      else (Inr (insertReults s), s, oRecords))"
  by pat_completeness auto
termination
  by (relation "measure (\<lambda>(url, oRecords, s). length oRecords)") auto

declare insert_loop.simps [simp del]

definition insert_records :: "jsval \<Rightarrow> session \<Rightarrow> (error + jsval) \<times> session \<times> jsval" where
  "insert_records input s =
     (case valid_records ''No valid records to insert!'' (promote input) of
        Inl e \<Rightarrow> (Inl e, s, input)
      | Inr (rs, type) \<Rightarrow>
          (let url = ''composite/tree/'' @ to_string type @ ''/''
           in case insert_loop url rs (s\<lparr>insertReults := JArr []\<rparr>) of
                (Inr r, s', rest) \<Rightarrow> (Inr r, s', caller_array input rest)
              | (Inl e, s', rest) \<Rightarrow>
                  (Inl (Thrown (''Salesforce '' @ to_string type @ '' insertion failed!'')),
                   s'\<lparr>insertResults := JBool False\<rparr>, caller_array input rest)))"

function update_loop ::
  "transport \<Rightarrow> string \<Rightarrow> jsval list \<Rightarrow> session \<Rightarrow> (error + jsval) \<times> session \<times> jsval list" where
  "update_loop fetch url oRecords s =
     (if length oRecords > 0
      then (let oRecordsBatch = take 200 oRecords;
                oRecords' = drop 200 oRecords;
                payload = JObj [(''records'', JArr oRecordsBatch)]
            in case priv_post fetch url payload None s of
                 (Inl e, s1) \<Rightarrow> (Inl e, s1, oRecords')
               | (Inr response, s1) \<Rightarrow>
                   (case js_concat (updateResults s1) response of
                      Inl e \<Rightarrow> (Inl e, s1, oRecords')
                    | Inr rs \<Rightarrow> update_loop fetch url oRecords' (s1\<lparr>updateResults := rs\<rparr>)))
      else (Inr (updateResults s), s, oRecords))"
  by pat_completeness auto
termination
  by (relation "measure (\<lambda>(fetch, url, oRecords, s). length oRecords)") auto

declare update_loop.simps [simp del]

definition update :: "transport \<Rightarrow> jsval \<Rightarrow> session \<Rightarrow> (error + jsval) \<times> session \<times> jsval" where
  "update fetch input s =
     (case valid_records ''No valid records to update!'' (promote input) of
        Inl e \<Rightarrow> (Inl e, s, input)
      | Inr (rs, type) \<Rightarrow>
          (let url = ''composite/sobjects?_HttpMethod=PATCH''
           in case update_loop fetch url rs (s\<lparr>updateResults := JArr []\<rparr>) of
                (Inr r, s', rest) \<Rightarrow> (Inr r, s', caller_array input rest)
              | (Inl e, s', rest) \<Rightarrow>
                  (Inl (Thrown (''Salesforce '' @ to_string type @ '' update failed!'')),
                   s'\<lparr>updateResults := JBool False\<rparr>, caller_array input rest)))"

subsection \<open>Session construction\<close>

text \<open>
  The second argument of \<^verbatim>\<open>salesforceSession\<close>; \<open>None\<close> is an option the caller left
  out, which takes the default of the destructuring pattern.
\<close>

record options =
  instanceUrl_opt :: "string option"
  servicesPath_opt :: "string option"
  version_opt :: "string option"

text \<open>
  The loop over the \<^verbatim>\<open>key=value\<close> pairs. \<^verbatim>\<open>decodeURIComponent\<close> is the host's; \<open>None\<close>
  is its URIError. \<^verbatim>\<open>pair[1] || ''\<close> is empty when there is no \<^verbatim>\<open>=\<close>. Assigning a
  string to the key \<^verbatim>\<open>__proto__\<close> of a plain object stores nothing.
\<close>

fun read_pairs ::
  "(string \<Rightarrow> string option) \<Rightarrow> string list \<Rightarrow> (string \<times> string) list
     \<Rightarrow> error + (string \<times> string) list" where
  "read_pairs decodeURIComponent [] vars = Inr vars"
| "read_pairs decodeURIComponent (p # ps) vars =
     (let pair = split_str CHR ''='' p;
          k = (case pair of [] \<Rightarrow> ''undefined'' | k # _ \<Rightarrow> k);
          v = (case pair of _ # v # _ \<Rightarrow> v | _ \<Rightarrow> [])
      in case decodeURIComponent k of
           None \<Rightarrow> Inl URIError
         | Some k' \<Rightarrow>
             (case decodeURIComponent v of
                None \<Rightarrow> Inl URIError
              | Some v' \<Rightarrow>
                  read_pairs decodeURIComponent ps
                    (if k' = ''__proto__'' then vars else AList.update k' v' vars)))"

text \<open>
  \<^verbatim>\<open>salesforceSession\<close>. The parameter list has defaults, so each \<^verbatim>\<open>var\<close> of the body
  that repeats a parameter's name starts from the parameter's value: \<^verbatim>\<open>var version\<close>
  keeps the option, and \<^verbatim>\<open>var _servicesPath = '/services/data/'\<close> assigns the constant
  over it. The file is in strict mode and declares \<^verbatim>\<open>_OAuthVarPairs\<close> nowhere: once the
  right-hand side is evaluated, the assignment throws a ReferenceError unless the host
  page has declared a global of that name (\<open>OAuthVarPairs_declared\<close>).
  \<^verbatim>\<open>_OAuthUrl.split('#')[1]\<close> is \<^verbatim>\<open>undefined\<close> when the URL has no \<^verbatim>\<open>#\<close>, and
  \<^verbatim>\<open>.split('&')\<close> on it throws.
\<close>

definition salesforceSession ::
  "bool \<Rightarrow> (string \<Rightarrow> string option) \<Rightarrow> string \<Rightarrow> options \<Rightarrow> error + session" where
  "salesforceSession OAuthVarPairs_declared decodeURIComponent OAuthUrl opts =
     (let instanceUrl = (case instanceUrl_opt opts of None \<Rightarrow> ''https://test.salesforce.com'' | Some u \<Rightarrow> u);
          version0 = (case version_opt opts of None \<Rightarrow> ''43.0'' | Some v \<Rightarrow> v);
          servicesPath0 = ''/services/data/''
      in case split_str CHR ''#'' OAuthUrl of
           _ # fragment # _ \<Rightarrow>
             (let OAuthVarPairs = split_str CHR ''&'' fragment
              in if \<not> OAuthVarPairs_declared then Inl ReferenceError
                 else case read_pairs decodeURIComponent OAuthVarPairs [] of
                        Inl e \<Rightarrow> Inl e
                      | Inr vars \<Rightarrow>
                          Inr \<lparr>OAuthVars = (if instanceUrl \<noteq> []
                                            then AList.update ''instance_url'' instanceUrl vars
                                            else vars),
                               servicesPath = servicesPath0,
                               version = version0,
                               requests = 0,
                               requestErrors = 0,
                               records = JUndefined,
                               searchRecords = JUndefined,
                               insertResults = JUndefined,
                               insertReults = JUndefined,
                               updateResults = JUndefined,
                               soql = JUndefined,
                               sosl = JUndefined,
                               calls = []\<rparr>)
         | _ \<Rightarrow> Inl TypeError)"

subsection \<open>Sample sessions and transports\<close>

text \<open>A session as construction leaves it, and mock transports for the scenarios.\<close>

definition session0 :: session where
  "session0 =
     \<lparr>OAuthVars = [(''access_token'', ''00Dxx0000001gPL''), (''token_type'', ''Bearer''),
                   (''instance_url'', ''https://na1.salesforce.com'')],
      servicesPath = ''/services/data/'',
      version = ''43.0'',
      requests = 0,
      requestErrors = 0,
      records = JUndefined,
      searchRecords = JUndefined,
      insertResults = JUndefined,
      insertReults = JUndefined,
      updateResults = JUndefined,
      soql = JUndefined,
      sosl = JUndefined,
      calls = []\<rparr>"

definition ok_response :: "jsval \<Rightarrow> response" where
  "ok_response v = \<lparr>json = Some v, getResponseCode = None\<rparr>"

definition fails_then_ok :: "nat \<Rightarrow> jsval \<Rightarrow> transport" where
  "fails_then_ok n v = (\<lambda>history c. if length history < n then None else Some (ok_response v))"


text \<open>
  The mock of the pagination scenario: the first page, with a cursor, on the query's URL,
  and the second page on any other URL.
\<close>

definition contact_pages :: transport where
  "contact_pages =
     (\<lambda>history c.
        if fst c = ''https://na1.salesforce.com/services/data/v43.0/query?q=SELECT%20Id%20FROM%20Contact''
        then Some (ok_response (JObj [(''records'', JArr [JObj [(''Id'', JStr ''1'')]]),
                                      (''nextRecordsUrl'', JStr ''/next'')]))
        else Some (ok_response (JObj [(''records'', JArr [JObj [(''Id'', JStr ''2'')]])])))"

text \<open>
  A transport that answers every chunk with one result, the number of calls before it
  (\<open>digits\<close> is the decimal rendering of a natural number).
\<close>

fun digits :: "nat \<Rightarrow> string" where
  "digits n =
     (if n < 10 then [''0123456789'' ! n]
      else digits (n div 10) @ [''0123456789'' ! (n mod 10)])"

declare digits.simps [simp del]

definition numbered_results :: transport where
  "numbered_results =
     (\<lambda>history c. Some (ok_response (JObj [(''results'', JArr [JNum (digits (length history))])])))"

text \<open>The record of the insert scenario.\<close>

definition contact_A :: jsval where
  "contact_A = JObj [(''attributes'', JObj [(''type'', JStr ''Contact'')]), (''Name'', JStr ''A'')]"



subsection \<open>Chunks and the calls that carry them\<close>

text \<open>The chunks that repeated \<^verbatim>\<open>splice(0, n)\<close> takes off an array, in order.\<close>

function chunks :: "nat \<Rightarrow> 'a list \<Rightarrow> 'a list list" where
  "chunks n xs = (if n = 0 \<or> xs = [] then [] else take n xs # chunks n (drop n xs))"
  by pat_completeness auto
termination
  by (relation "measure (\<lambda>(n, xs). length xs)") auto

declare chunks.simps [simp del]

text \<open>
  The call that the transport observes for one chunk: what \<^verbatim>\<open>_post(action, payload)\<close>
  hands to \<^verbatim>\<open>fetch\<close> in \<^verbatim>\<open>batch\<close>, in \<^verbatim>\<open>update\<close> and in \<^verbatim>\<open>insert\<close>.
\<close>

definition batch_call :: "session \<Rightarrow> fetch_params option \<Rightarrow> jsval list \<Rightarrow> call" where
  "batch_call s optionalParameters chunk =
     (priv_url s ''composite/batch/'',
      request_parameters s ''post'' (JObj [(''batchRequests'', JArr chunk)]) optionalParameters)"

definition update_call :: "session \<Rightarrow> jsval list \<Rightarrow> call" where
  "update_call s chunk =
     (priv_url s ''composite/sobjects?_HttpMethod=PATCH'',
      request_parameters s ''post'' (JObj [(''records'', JArr chunk)]) None)"

definition insert_call :: "session \<Rightarrow> jsval \<Rightarrow> jsval list \<Rightarrow> call" where
  "insert_call s type chunk =
     (priv_url s (''composite/tree/'' @ to_string type @ ''/''),
      request_parameters s ''post'' (JObj [(''records'', JArr chunk)]) None)"

section \<open>Properties\<close>

subsection \<open>The request executor\<close>

lemma priv_url_frame [simp]:
  "priv_url (s\<lparr>requests := a\<rparr>) x = priv_url s x"
  "priv_url (s\<lparr>requestErrors := b\<rparr>) x = priv_url s x"
  "priv_url (s\<lparr>calls := c\<rparr>) x = priv_url s x"
  by (simp_all add: priv_url_def OAuthVar_def)

lemma request_parameters_frame [simp]:
  "request_parameters (s\<lparr>requests := a\<rparr>) m p op = request_parameters s m p op"
  "request_parameters (s\<lparr>requestErrors := b\<rparr>) m p op = request_parameters s m p op"
  "request_parameters (s\<lparr>calls := c\<rparr>) m p op = request_parameters s m p op"
  by (simp_all add: request_parameters_def priv_parameters_def OAuthVar_def)

lemma request_parameters_again:
  "request_parameters s m p (Some (request_parameters s m p op)) = request_parameters s m p op"
  by (cases op) (simp_all add: request_parameters_def priv_parameters_def Let_def)

lemma priv_request_ok:
  assumes "attempt fetch method (calls s) (priv_url s action, request_parameters s method payload op) = Some v"
  shows "priv_request fetch method action payload op retry s =
           (Inr v, s\<lparr>requests := requests s + 1,
                     calls := calls s @ [(priv_url s action, request_parameters s method payload op)]\<rparr>)"
  using assms by (simp add: priv_request.simps Let_def)

lemma priv_request_retries:
  assumes "retry + k \<le> 3"
    and "\<forall>i<k. attempt fetch method (calls s @ replicate i c) c = None"
    and "attempt fetch method (calls s @ replicate k c) c = Some v"
    and "c = (priv_url s action, request_parameters s method payload op)"
  shows "priv_request fetch method action payload op retry s =
           (Inr v, s\<lparr>requests := requests s + int k + 1,
                     requestErrors := requestErrors s + int k,
                     calls := calls s @ replicate (Suc k) c\<rparr>)"
  using assms
proof (induction k arbitrary: retry s op)
  case 0
  then show ?case by (simp add: priv_request_ok)
next
  case (Suc k)
  let ?p = "request_parameters s method payload op"
  let ?s3 = "s\<lparr>requests := requests s + 1, calls := calls s @ [c], requestErrors := requestErrors s + 1\<rparr>"
  have first: "attempt fetch method (calls s) c = None"
    using Suc.prems(2) by (metis append_Nil2 replicate_0 zero_less_Suc)
  have step: "priv_request fetch method action payload op retry s =
                priv_request fetch method action payload (Some ?p) (retry + 1) ?s3"
    using first Suc.prems(1,4) by (subst priv_request.simps) (simp add: Let_def)
  have c': "c = (priv_url ?s3 action, request_parameters ?s3 method payload (Some ?p))"
    using Suc.prems(4) by (simp add: request_parameters_again)
  have fails: "\<forall>i<k. attempt fetch method (calls ?s3 @ replicate i c) c = None"
  proof (intro allI impI)
    fix i assume "i < k"
    then have "Suc i < Suc k" by simp
    then have "attempt fetch method (calls s @ replicate (Suc i) c) c = None"
      using Suc.prems(2) by blast
    then show "attempt fetch method (calls ?s3 @ replicate i c) c = None" by simp
  qed
  have ok: "attempt fetch method (calls ?s3 @ replicate k c) c = Some v"
    using Suc.prems(3) by simp
  have "priv_request fetch method action payload (Some ?p) (retry + 1) ?s3 =
          (Inr v, ?s3\<lparr>requests := requests ?s3 + int k + 1,
                       requestErrors := requestErrors ?s3 + int k,
                       calls := calls ?s3 @ replicate (Suc k) c\<rparr>)"
    using Suc.IH[of "retry + 1" ?s3 "Some ?p"] Suc.prems(1) fails ok c' by simp
  with step show ?case by simp
qed



lemma toLowerCase_get: "toLowerCase ''get'' = ''get''"
  by (simp add: toLowerCase_def lower_char_def)

lemma toLowerCase_post: "toLowerCase ''post'' = ''post''"
  by (simp add: toLowerCase_def lower_char_def)

text \<open>
  C2, as the code has it. Every attempt increments \<open>requests\<close>, the retries included: a
  call whose first \<open>k \<le> 3\<close> attempts fail and whose next attempt succeeds returns the decoded
  response, has added \<open>k + 1\<close> to \<open>requests\<close> and \<open>k\<close> to \<open>requestErrors\<close>, and has shown
  the transport the same call \<open>k + 1\<close> times.
\<close>

theorem request_counters_per_attempt:
  assumes "k \<le> 3"
    and "\<forall>i<k. attempt fetch method (calls s @ replicate i c) c = None"
    and "attempt fetch method (calls s @ replicate k c) c = Some v"
    and "c = (priv_url s action, request_parameters s method payload optionalParameters)"
  shows "priv_request fetch method action payload optionalParameters 0 s =
           (Inr v, s\<lparr>requests := requests s + int k + 1,
                     requestErrors := requestErrors s + int k,
                     calls := calls s @ replicate (Suc k) c\<rparr>)"
  using priv_request_retries[of 0 k fetch "method" s c v action payload optionalParameters] assms
  by simp

text \<open>The transport that fails three times and then answers: four requests, three errors.\<close>

theorem request_counters_per_attempt_witness:
  "priv_request (fails_then_ok 3 (JObj [])) ''get'' ''limits'' JNull None 0 session0 =
     (Inr (JObj []),
      session0\<lparr>requests := 4, requestErrors := 3,
               calls := replicate 4 (priv_url session0 ''limits'',
                                     request_parameters session0 ''get'' JNull None)\<rparr>)"
  using request_counters_per_attempt[of 3 "fails_then_ok 3 (JObj [])" "''get''" session0
          "(priv_url session0 ''limits'', request_parameters session0 ''get'' JNull None)"
          "JObj []" "''limits''" JNull None]
  by (simp add: attempt_def fails_then_ok_def ok_response_def toLowerCase_get session0_def)

text \<open>
  C2 as stated fails: with three failures before the success the call succeeds and the
  request counter has grown by four, not by one.
\<close>

theorem request_counter_three_failures:
  "fst (priv_request (fails_then_ok 3 (JObj [])) ''get'' ''limits'' JNull None 0 session0) = Inr (JObj [])
   \<and> requests (snd (priv_request (fails_then_ok 3 (JObj [])) ''get'' ''limits'' JNull None 0 session0))
       = requests session0 + 4
   \<and> requests (snd (priv_request (fails_then_ok 3 (JObj [])) ''get'' ''limits'' JNull None 0 session0))
       \<noteq> requests session0 + 1"
  using priv_request_retries[of 0 3 "fails_then_ok 3 (JObj [])" "''get''" session0
          "(priv_url session0 ''limits'', request_parameters session0 ''get'' JNull None)"
          "JObj []" "''limits''" JNull None]
  by (simp add: attempt_def fails_then_ok_def ok_response_def toLowerCase_get session0_def)

subsection \<open>batch\<close>

lemma priv_post_never_fails:
  assumes "\<forall>h c. \<exists>r v. fetch h c = Some r \<and> json r = Some v"
  obtains v where "priv_post fetch action payload op s =
                  (Inr v, s\<lparr>requests := requests s + 1,
                            calls := calls s @ [(priv_url s action, request_parameters s ''post'' payload op)]\<rparr>)"
proof -
  let ?c = "(priv_url s action, request_parameters s ''post'' payload op)"
  from assms obtain r v where "fetch (calls s) ?c = Some r \<and> json r = Some v"
    by blast
  then have "attempt fetch ''post'' (calls s) ?c = Some v"
    by (simp add: attempt_def toLowerCase_post)
  then have "priv_post fetch action payload op s =
                  (Inr v, s\<lparr>requests := requests s + 1, calls := calls s @ [?c]\<rparr>)"
    unfolding priv_post_def by (rule priv_request_ok)
  then show thesis by (rule that)
qed

lemma chunks_step:
  assumes "0 < (n::nat)"
  shows "Suc ((n - 25 + 24) div 25) = (n + 24) div 25"
proof (cases "n \<le> 25")
  case True
  have "n + 24 = (n - 1) + 25" using assms by simp
  then have "(n + 24) div 25 = (n - 1) div 25 + 1"
    by (simp only: div_add_self2)
  moreover have "(n - 1) div 25 = 0" using assms True by simp
  moreover have "n - 25 + 24 = 24" using True by simp
  ultimately show ?thesis by simp
next
  case False
  then have "n + 24 = (n - 25 + 24) + 25" by simp
  then have "(n + 24) div 25 = (n - 25 + 24) div 25 + 1"
    by (simp only: div_add_self2)
  then show ?thesis by simp
qed

lemma batch_loop_Nil:
  "batch_loop fetch op [] br s = (Inr br, s\<lparr>requests := requests s + 1\<rparr>, [])"
  by (subst batch_loop.simps) simp

lemma batch_loop_step:
  assumes "reqs \<noteq> []"
  shows "batch_loop fetch op reqs br s =
     (case priv_post fetch ''composite/batch/'' (JObj [(''batchRequests'', JArr (take 25 reqs))]) op s of
        (Inl e, s1) \<Rightarrow> (Inl (Thrown ''Salesforce batch request failed!''), s1, drop 25 reqs)
      | (Inr thisResponse, s1) \<Rightarrow>
          (case batch_merge br thisResponse of
             Inl e \<Rightarrow> (Inl (Thrown ''Salesforce batch request failed!''), s1, drop 25 reqs)
           | Inr br' \<Rightarrow>
               batch_loop fetch op (drop 25 reqs) br' (s1\<lparr>requests := requests s1 - 1\<rparr>)))"
  using assms by (subst batch_loop.simps) (simp add: Let_def)

lemma batch_loop_never_fails:
  assumes nf: "\<forall>h c. \<exists>r v. fetch h c = Some r \<and> json r = Some v"
  shows "batch_loop fetch op reqs br s = (Inr r, s', reqs') \<Longrightarrow>
           requests s' = requests s + 1
           \<and> length (calls s') = length (calls s) + (length reqs + 24) div 25"
proof (induction reqs arbitrary: br s rule: length_induct)
  case (1 reqs)
  show ?case
  proof (cases "reqs = []")
    case True
    with "1.prems" show ?thesis by (auto simp: batch_loop_Nil)
  next
    case False
    let ?payload = "JObj [(''batchRequests'', JArr (take 25 reqs))]"
    let ?s1 = "s\<lparr>requests := requests s + 1,
                  calls := calls s @ [(priv_url s ''composite/batch/'',
                                       request_parameters s ''post'' ?payload op)]\<rparr>"
    obtain v where post: "priv_post fetch ''composite/batch/'' ?payload op s = (Inr v, ?s1)"
      using priv_post_never_fails[OF nf] by blast
    have unfolded: "(case batch_merge br v of
             Inl e \<Rightarrow> (Inl (Thrown ''Salesforce batch request failed!''), ?s1, drop 25 reqs)
           | Inr br' \<Rightarrow>
               batch_loop fetch op (drop 25 reqs) br' (?s1\<lparr>requests := requests ?s1 - 1\<rparr>))
         = (Inr r, s', reqs')"
      using "1.prems" False post by (simp add: batch_loop_step)
    then obtain br' where
      rest: "batch_loop fetch op (drop 25 reqs) br' (?s1\<lparr>requests := requests ?s1 - 1\<rparr>) = (Inr r, s', reqs')"
      by (cases "batch_merge br v") simp_all
    have shorter: "length (drop 25 reqs) < length reqs"
      using False by simp
    have "requests s' = requests (?s1\<lparr>requests := requests ?s1 - 1\<rparr>) + 1
          \<and> length (calls s') = length (calls (?s1\<lparr>requests := requests ?s1 - 1\<rparr>))
                + (length (drop 25 reqs) + 24) div 25"
      using "1.IH" shorter rest by blast
    then show ?thesis
      using False chunks_step[of "length reqs"] by simp
  qed
qed


lemma digits_small: "digits 0 = ''0''" "digits 1 = ''1''" "digits (Suc 0) = ''1''"
  by (simp_all add: digits.simps)

lemma session0_fields:
  "calls session0 = []" "requests session0 = 0" "requestErrors session0 = 0"
  "version session0 = ''43.0''" "servicesPath session0 = ''/services/data/''"
  by (simp_all add: session0_def)

lemma batch_defaults_bare:
  assumes "reqs \<noteq> []" and "get_prop (hd reqs) ''method'' = Inr m" and "\<not> truthy m"
  shows "batch_defaults s reqs = Inr (map (default_get s) reqs)"
  using assms by (cases reqs) (simp_all add: batch_defaults_def)

lemma batch_two_chunks:
  "fst (batch numbered_results (replicate 26 (JStr ''sobjects'')) None session0)
     = Inr (JObj [(''results'', JArr [JNum ''0''])])
   \<and> length (calls (fst (snd (batch numbered_results (replicate 26 (JStr ''sobjects'')) None session0)))) = 2
   \<and> requests (fst (snd (batch numbered_results (replicate 26 (JStr ''sobjects'')) None session0))) = 1
   \<and> snd (snd (batch numbered_results (replicate 26 (JStr ''sobjects'')) None session0)) = []"
proof -
  have defaults: "batch_defaults session0 (replicate 26 (JStr ''sobjects''))
                    = Inr (replicate 26 (default_get session0 (JStr ''sobjects'')))"
    using batch_defaults_bare[of "replicate 26 (JStr ''sobjects'')" JUndefined session0] by simp
  show ?thesis
    by (simp add: batch_def defaults batch_loop_step batch_loop_Nil priv_post_def priv_request.simps
        attempt_def numbered_results_def ok_response_def toLowerCase_post batch_merge_def Let_def
        session0_fields digits_small)
qed

lemma length_batch_defaults:
  "batch_defaults s reqs = Inr reqs1 \<Longrightarrow> length reqs1 = length reqs"
  by (auto simp: batch_defaults_def split: list.splits sum.splits if_splits)

text \<open>
  C6. On a transport that never fails (every \<^verbatim>\<open>fetch\<close> resolves and every body
  decodes), a call of \<^verbatim>\<open>batch\<close> on \<open>L\<close> sub-requests that returns has added exactly one
  to \<open>requests\<close>, while the transport has seen \<open>\<lceil>L / 25\<rceil>\<close> calls: each chunk's
  increment in \<^verbatim>\<open>_request\<close> is taken back by the decrement in the loop, and the increment
  after the loop is left.
\<close>

theorem batch_counts_one_request:
  assumes "\<forall>h c. \<exists>r v. fetch h c = Some r \<and> json r = Some v"
    and "batch fetch reqs optionalParameters s = (Inr r, s', reqs')"
  shows "requests s' = requests s + 1
         \<and> length (calls s') = length (calls s) + (length reqs + 24) div 25"
proof (cases "batch_defaults s reqs")
  case (Inl e)
  with assms(2) show ?thesis by (simp add: batch_def)
next
  case (Inr reqs1)
  with assms(2) have "batch_loop fetch optionalParameters reqs1 (JBool False) s = (Inr r, s', reqs')"
    by (simp add: batch_def)
  then have "requests s' = requests s + 1
             \<and> length (calls s') = length (calls s) + (length reqs1 + 24) div 25"
    using batch_loop_never_fails[OF assms(1)] by blast
  then show ?thesis using length_batch_defaults[OF Inr] by simp
qed

text \<open>
  A batch of 26 bare paths on a transport that never fails: two chunks, one request counted.
\<close>

theorem batch_counts_one_request_witness:
  "(\<forall>h c. \<exists>r v. numbered_results h c = Some r \<and> json r = Some v)
   \<and> fst (batch numbered_results (replicate 26 (JStr ''sobjects'')) None session0)
       = Inr (JObj [(''results'', JArr [JNum ''0''])])
   \<and> length (calls (fst (snd (batch numbered_results (replicate 26 (JStr ''sobjects'')) None session0)))) = 2
   \<and> requests (fst (snd (batch numbered_results (replicate 26 (JStr ''sobjects'')) None session0)))
       = requests session0 + 1"
proof -
  let ?run = "batch numbered_results (replicate 26 (JStr ''sobjects'')) None session0"
  have nf: "\<forall>h c. \<exists>r v. numbered_results h c = Some r \<and> json r = Some v"
    by (simp add: numbered_results_def ok_response_def)
  have "fst ?run = Inr (JObj [(''results'', JArr [JNum ''0''])])"
    using batch_two_chunks by simp
  then have run: "?run = (Inr (JObj [(''results'', JArr [JNum ''0''])]), fst (snd ?run), snd (snd ?run))"
    by (metis prod.collapse)
  show ?thesis
    using batch_counts_one_request[OF nf run] nf batch_two_chunks by simp
qed

text \<open>
  C4 fails on the code. \<^verbatim>\<open>batch\<close> calls \<^verbatim>\<open>batchResponses.results.concat(...)\<close> and
  drops the array it returns, so the aggregate is the response of the first chunk. On 26
  sub-requests the transport sees two POSTs and answers them with the results \<open>[0]\<close> and
  \<open>[1]\<close>; the aggregate returned has the results \<open>[0]\<close>.
\<close>

theorem batch_returns_first_chunk_only:
  "fst (batch numbered_results (replicate 26 (JStr ''sobjects'')) None session0)
     = Inr (JObj [(''results'', JArr [JNum ''0''])])
   \<and> length (calls (fst (snd (batch numbered_results (replicate 26 (JStr ''sobjects'')) None session0)))) = 2
   \<and> numbered_results
         (take 1 (calls (fst (snd (batch numbered_results (replicate 26 (JStr ''sobjects'')) None session0)))))
         (calls (fst (snd (batch numbered_results (replicate 26 (JStr ''sobjects'')) None session0))) ! 1)
       = Some (ok_response (JObj [(''results'', JArr [JNum ''1''])]))"
  using batch_two_chunks by (simp add: numbered_results_def digits_small)

subsection \<open>The caller's array\<close>





lemma insert_loop_Nil:
  "insert_loop url [] s = (Inr (insertReults s), s, [])"
  by (subst insert_loop.simps) simp

lemma insert_loop_step:
  assumes "oRecords \<noteq> []" and "insertReults s = JArr xs"
  shows "insert_loop url oRecords s =
           insert_loop url (drop 200 oRecords)
             ((post_issued url (JObj [(''records'', JArr (take 200 oRecords))]) s)
                \<lparr>insertReults := JArr (xs @ [JUndefined])\<rparr>)"
  using assms by (subst insert_loop.simps) (simp add: Let_def post_issued_def)

lemma insert_loop_consumes:
  "insertReults s = JArr xs \<Longrightarrow> \<exists>ys s'. insert_loop url oRecords s = (Inr (JArr ys), s', [])"
proof (induction oRecords arbitrary: s xs rule: length_induct)
  case (1 oRecords)
  show ?case
  proof (cases "oRecords = []")
    case True
    with "1.prems" show ?thesis by (simp add: insert_loop_Nil)
  next
    case False
    let ?s1 = "(post_issued url (JObj [(''records'', JArr (take 200 oRecords))]) s)
                \<lparr>insertReults := JArr (xs @ [JUndefined])\<rparr>"
    have "length (drop 200 oRecords) < length oRecords" using False by simp
    moreover have "insertReults ?s1 = JArr (xs @ [JUndefined])" by simp
    ultimately have "\<exists>ys s'. insert_loop url (drop 200 oRecords) ?s1 = (Inr (JArr ys), s', [])"
      using "1.IH" by blast
    then show ?thesis using insert_loop_step[OF False "1.prems"] by simp
  qed
qed




lemma insert_valid_consumes:
  assumes "valid_records ''No valid records to insert!'' (promote (JArr rs)) = Inr valid"
  shows "\<not> isl (fst (insert_records (JArr rs) s)) \<and> snd (snd (insert_records (JArr rs) s)) = JArr []"
proof -
  obtain rs1 type where valid: "valid = (rs1, type)" by (cases valid)
  have "insertReults (s\<lparr>insertReults := JArr []\<rparr>) = JArr []" by simp
  then obtain ys s' where "insert_loop (''composite/tree/'' @ to_string type @ ''/'') rs1 (s\<lparr>insertReults := JArr []\<rparr>)
                        = (Inr (JArr ys), s', [])"
    using insert_loop_consumes by blast
  with assms valid show ?thesis by (simp add: insert_records_def caller_array_def)
qed

lemma insert_success_consumes:
  "\<not> isl (fst (insert_records (JArr rs) s)) \<Longrightarrow> snd (snd (insert_records (JArr rs) s)) = JArr []"
proof (cases "valid_records ''No valid records to insert!'' (promote (JArr rs))")
  case (Inl e)
  then show "\<not> isl (fst (insert_records (JArr rs) s)) \<Longrightarrow> ?thesis"
    by (simp add: insert_records_def)
next
  case (Inr valid)
  then show ?thesis using insert_valid_consumes by blast
qed


lemma insert_one_record:
  "fst (insert_records (JArr [contact_A]) session0) = Inr (JArr [JUndefined])
   \<and> snd (snd (insert_records (JArr [contact_A]) session0)) = JArr []
   \<and> length (calls (fst (snd (insert_records (JArr [contact_A]) session0)))) = 1"
  by (simp add: insert_records_def valid_records_def promote_def has_type_def contact_A_def
      insert_loop.simps post_issued_def caller_array_def Let_def session0_fields)

subsection \<open>query, search and the oversized GET\<close>

lemma query_try_cursor:
  assumes "priv_get fetch (Path q) (Some (priv_parameters s parameters)) s = (Inr results, s1)"
    and "get_prop results ''records'' = Inr rs"
    and "get_prop results ''nextRecordsUrl'' = Inr next"
    and "next \<noteq> JUndefined" and "next \<noteq> JNull"
  shows "query_try fetch q parameters s = (Inl ReferenceError, s1\<lparr>records := rs\<rparr>)"
  using assms by (simp add: query_try_def)

text \<open>
  C1 fails on the code. On the scenario's mock the first page carries a cursor, the loop
  body throws the ReferenceError before it fetches it, and \<^verbatim>\<open>query\<close> rejects with
  \<^verbatim>\<open>"Query failed!"\<close>, with \<open>records\<close> set to \<^verbatim>\<open>false\<close> and one call seen by the
  transport, where C1 has it resolve to the two records. A \<^verbatim>\<open>search\<close> of a single page
  resolves to \<^verbatim>\<open>undefined\<close>.
\<close>

theorem query_fails_on_next_page:
  "fst (query contact_pages (JStr ''SELECT Id FROM Contact'') None session0) = Inl (Thrown ''Query failed!'')
   \<and> records (snd (query contact_pages (JStr ''SELECT Id FROM Contact'') None session0)) = JBool False
   \<and> map fst (calls (snd (query contact_pages (JStr ''SELECT Id FROM Contact'') None session0)))
       = [''https://na1.salesforce.com/services/data/v43.0/query?q=SELECT%20Id%20FROM%20Contact'']
   \<and> fst (search (fails_then_ok 0 (JObj [(''searchRecords'', JArr [JObj [(''Id'', JStr ''1'')]])]))
              (JStr ''FIND {Arthur Dent}'') None session0) = Inr JUndefined"
  by (simp add: query_def query_try_def search_def search_try_def priv_get_def priv_url_def
      OAuthVar_def priv_request.simps attempt_def contact_pages_def fails_then_ok_def
      ok_response_def toLowerCase_get unreserved_def hex_digit_def Let_def session0_def)

lemma length_encodeURIComponent: "length s \<le> length (encodeURIComponent s)"
  by (induction s) auto

lemma priv_get_oversized:
  "2048 < length (priv_url s a) \<Longrightarrow> priv_get fetch (Path a) ps s = (Inl TypeError, s)"
  by (simp add: priv_get_def)

lemma query_oversized:
  assumes "2048 < length (priv_url s (''query?q='' @ encodeURIComponent (to_string q)))"
    and "q \<noteq> JUndefined"
  shows "query fetch q ps s = (Inl (Thrown ''Query failed!''), s\<lparr>soql := q, records := JBool False\<rparr>)"
proof -
  let ?s = "s\<lparr>soql := q\<rparr>"
  let ?a = "''query?q='' @ encodeURIComponent (to_string q)"
  have "2048 < length (priv_url ?s ?a)"
    using assms(1) by (simp add: priv_url_def OAuthVar_def)
  then have "priv_get fetch (Path ?a) (Some (priv_parameters ?s ps)) ?s = (Inl TypeError, ?s)"
    by (rule priv_get_oversized)
  then have "query_try fetch ?a ps ?s = (Inl TypeError, ?s)"
    by (simp add: query_try_def)
  then show ?thesis using assms(2) by (simp add: query_def Let_def)
qed

text \<open>
  C3 fails on the code. A query of 2048 characters builds a URL longer than 2048, the
  call of \<^verbatim>\<open>this.batch\<close> in \<^verbatim>\<open>_get\<close> throws, and \<^verbatim>\<open>query\<close> rejects: the transport
  has seen no call at all, neither the GET nor a POST to the composite-batch endpoint.
\<close>

theorem oversized_get_reaches_no_transport:
  "priv_get numbered_results (Path (''query?q='' @ replicate 2048 CHR ''a'')) None session0
     = (Inl TypeError, session0)
   \<and> query numbered_results (JStr (replicate 2048 CHR ''a'')) None session0
     = (Inl (Thrown ''Query failed!''),
        session0\<lparr>soql := JStr (replicate 2048 CHR ''a''), records := JBool False\<rparr>)
   \<and> calls (snd (query numbered_results (JStr (replicate 2048 CHR ''a'')) None session0)) = []"
proof -
  have "2048 < length (priv_url session0 (''query?q='' @ replicate 2048 CHR ''a''))"
    by (simp add: priv_url_def)
  then have get: "priv_get numbered_results (Path (''query?q='' @ replicate 2048 CHR ''a'')) None session0
     = (Inl TypeError, session0)"
    by (rule priv_get_oversized)
  have "2048 \<le> length (encodeURIComponent (replicate 2048 CHR ''a''))"
    using length_encodeURIComponent[of "replicate 2048 CHR ''a''"] by simp
  then have "2048 < length (priv_url session0
               (''query?q='' @ encodeURIComponent (to_string (JStr (replicate 2048 CHR ''a'')))))"
    by (simp add: priv_url_def)
  then have q: "query numbered_results (JStr (replicate 2048 CHR ''a'')) None session0
     = (Inl (Thrown ''Query failed!''),
        session0\<lparr>soql := JStr (replicate 2048 CHR ''a''), records := JBool False\<rparr>)"
    by (rule query_oversized) simp
  show ?thesis using get q by (simp add: session0_fields)
qed

subsection \<open>The guard of insert and update\<close>

lemma promote_falsy: "\<not> has_type input \<Longrightarrow> promote input = input"
  by (simp add: promote_def)

lemma has_type_truthy: "has_type input \<Longrightarrow> truthy input"
  by (simp add: has_type_def)

lemma valid_records_falsy:
  "\<not> truthy input \<Longrightarrow> valid_records message (promote input) = Inl (Error message)"
proof -
  assume falsy: "\<not> truthy input"
  then have "\<not> has_type input" using has_type_truthy by blast
  then have "promote input = input" by (rule promote_falsy)
  with falsy show ?thesis by (simp add: valid_records_def)
qed

lemma valid_records_no_array:
  assumes "\<not> has_type input" and "\<forall>rs. input \<noteq> JArr rs"
  shows "valid_records message (promote input) = Inl (Error message)"
  using assms by (cases input) (simp_all add: promote_falsy valid_records_def)

lemma valid_records_first_untyped:
  assumes "r \<noteq> JUndefined" and "r \<noteq> JNull" and "\<not> has_type r"
  shows "valid_records message (promote (JArr (r # rs))) = Inl (Error message)"
proof -
  have array: "promote (JArr (r # rs)) = JArr (r # rs)"
    by (simp add: promote_def has_type_def)
  obtain a where a: "get_prop r ''attributes'' = Inr a"
    using assms(1,2) by (cases r) simp_all
  show ?thesis
  proof (cases "truthy a")
    case False
    with a show ?thesis by (simp add: array valid_records_def)
  next
    case True
    then obtain t where t: "get_prop a ''type'' = Inr t"
      by (cases a) simp_all
    have "truthy r" using a True by (cases r) simp_all
    with assms(3) a True t have "\<not> truthy t" by (simp add: has_type_def)
    with a True t show ?thesis by (simp add: array valid_records_def)
  qed
qed

lemma invalid_records_rejected:
  assumes "\<not> truthy input \<or> (\<not> has_type input \<and> (\<forall>rs. input \<noteq> JArr rs))
           \<or> (\<exists>r rs. input = JArr (r # rs) \<and> r \<noteq> JUndefined \<and> r \<noteq> JNull \<and> \<not> has_type r)"
  shows "insert_records input s = (Inl (Error ''No valid records to insert!''), s, input)
         \<and> update fetch input s = (Inl (Error ''No valid records to update!''), s, input)"
proof -
  have "valid_records message (promote input) = Inl (Error message)" for message
    using assms valid_records_falsy valid_records_no_array valid_records_first_untyped by blast
  then show ?thesis by (simp add: insert_records_def update_def)
qed

text \<open>
  C7 fails on the code for an array with no first record: on an empty array, and on an
  array whose first element is \<^verbatim>\<open>null\<close>, the guard itself throws a TypeError where C7
  has the error \<^verbatim>\<open>No valid records to insert!\<close>. No call reaches the transport, and
  \<^verbatim>\<open>insert(null)\<close> is rejected as C7 says. Every other invalid input is rejected with
  that error (\<open>invalid_records_rejected\<close>).
\<close>

theorem empty_array_raises_TypeError:
  "insert_records (JArr []) session0 = (Inl TypeError, session0, JArr [])
   \<and> update numbered_results (JArr []) session0 = (Inl TypeError, session0, JArr [])
   \<and> insert_records (JArr [JNull]) session0 = (Inl TypeError, session0, JArr [JNull])
   \<and> insert_records JNull session0 = (Inl (Error ''No valid records to insert!''), session0, JNull)"
  by (simp add: insert_records_def update_def valid_records_def promote_def has_type_def)

subsection \<open>Session construction\<close>

lemma split_str_no_separator: "sep \<notin> set s \<Longrightarrow> split_str sep s = [s]"
  by (induction s) auto

text \<open>
  C8, as the code has it. A URL with no \<^verbatim>\<open>#\<close> makes \<^verbatim>\<open>_OAuthUrl.split('#')[1]\<close>
  undefined, and construction throws a TypeError: there is no session and no credential
  set.
\<close>

theorem construction_without_fragment:
  assumes "CHR ''#'' \<notin> set OAuthUrl"
  shows "salesforceSession OAuthVarPairs_declared decodeURIComponent OAuthUrl opts = Inl TypeError"
  using split_str_no_separator[OF assms] by (simp add: salesforceSession_def)

text \<open>
  A URL with a query string and no fragment.
\<close>

theorem construction_without_fragment_witness:
  "CHR ''#'' \<notin> set ''https://login.example.com/cb?state=1''
   \<and> salesforceSession False Some ''https://login.example.com/cb?state=1''
        \<lparr>instanceUrl_opt = Some ''https://na1.salesforce.com'', servicesPath_opt = None,
         version_opt = None\<rparr> = Inl TypeError"
  using construction_without_fragment[of "''https://login.example.com/cb?state=1''" False Some
          "\<lparr>instanceUrl_opt = Some ''https://na1.salesforce.com'', servicesPath_opt = None,
            version_opt = None\<rparr>"]
  by simp

text \<open>
  C8 as stated fails: construction on a URL without a fragment raises an error.
\<close>

theorem no_fragment_raises_TypeError:
  "salesforceSession True Some ''https://example.com/landing''
     \<lparr>instanceUrl_opt = None, servicesPath_opt = None, version_opt = None\<rparr> = Inl TypeError"
  by (simp add: salesforceSession_def)

lemma constructed_servicesPath:
  "salesforceSession OAuthVarPairs_declared decodeURIComponent OAuthUrl opts = Inr s
     \<Longrightarrow> servicesPath s = ''/services/data/''"
  by (auto simp: salesforceSession_def Let_def split: list.splits if_splits sum.splits)

text \<open>
  C9 fails on the code. The option \<^verbatim>\<open>_servicesPath\<close> is overwritten by the \<^verbatim>\<open>var\<close> of the
  same name: a session built with the services path \<^verbatim>\<open>/custom/data/\<close> and the version
  \<^verbatim>\<open>50.0\<close> builds its URLs with \<^verbatim>\<open>/services/data/\<close> and \<^verbatim>\<open>v50.0\<close>.
\<close>

theorem servicesPath_option_ignored:
  "(case salesforceSession True Some ''https://app.example.com/cb#access_token=abc&token_type=Bearer''
           \<lparr>instanceUrl_opt = None, servicesPath_opt = Some ''/custom/data/'',
            version_opt = Some ''50.0''\<rparr> of
      Inl e \<Rightarrow> False
    | Inr s \<Rightarrow> priv_url s ''limits'' = ''https://test.salesforce.com/services/data/v50.0/limits''
               \<and> OAuthVars s = [(''access_token'', ''abc''), (''token_type'', ''Bearer''),
                                (''instance_url'', ''https://test.salesforce.com'')])"
  by (simp add: salesforceSession_def priv_url_def OAuthVar_def Let_def)

subsection \<open>Exhausted retries\<close>

lemma config_frame [simp]:
  "priv_url (s\<lparr>soql := q\<rparr>) a = priv_url s a"
  "priv_url (s\<lparr>sosl := q\<rparr>) a = priv_url s a"
  "priv_url (s\<lparr>updateResults := u\<rparr>) a = priv_url s a"
  "priv_url (s\<lparr>insertReults := u\<rparr>) a = priv_url s a"
  "priv_parameters (s\<lparr>soql := q\<rparr>) op = priv_parameters s op"
  "priv_parameters (s\<lparr>sosl := q\<rparr>) op = priv_parameters s op"
  "request_parameters (s\<lparr>soql := q\<rparr>) m p op = request_parameters s m p op"
  "request_parameters (s\<lparr>sosl := q\<rparr>) m p op = request_parameters s m p op"
  "request_parameters (s\<lparr>updateResults := u\<rparr>) m p op = request_parameters s m p op"
  "request_parameters (s\<lparr>insertReults := u\<rparr>) m p op = request_parameters s m p op"
  by (simp_all add: priv_url_def request_parameters_def priv_parameters_def OAuthVar_def)














subsection \<open>The calls of a chunked operation\<close>


lemma chunks_Nil [simp]: "chunks n [] = []"
  by (subst chunks.simps) simp


lemma call_frame [simp]:
  "batch_call (s\<lparr>requests := a\<rparr>) = batch_call s"
  "batch_call (s\<lparr>requestErrors := b\<rparr>) = batch_call s"
  "batch_call (s\<lparr>calls := c\<rparr>) = batch_call s"
  "update_call (s\<lparr>requests := a\<rparr>) = update_call s"
  "update_call (s\<lparr>requestErrors := b\<rparr>) = update_call s"
  "update_call (s\<lparr>calls := c\<rparr>) = update_call s"
  "update_call (s\<lparr>updateResults := u\<rparr>) = update_call s"
  "insert_call (s\<lparr>requests := a\<rparr>) = insert_call s"
  "insert_call (s\<lparr>calls := c\<rparr>) = insert_call s"
  "insert_call (s\<lparr>insertReults := u\<rparr>) = insert_call s"
  by (simp_all add: fun_eq_iff batch_call_def update_call_def insert_call_def)
















end
